theory Spec2Isabelle
  imports Main
begin

section \<open>Data model of the semantic analyser (analisadores.py)\<close>

text \<open>
  Types and operators are Python strings in the source (\<open>"int"\<close>, \<open>"boolean"\<close>,
  \<open>"+"\<close>, ...), and they stay strings here. A parameter list is a list of
  \<open>(tipo, nome)\<close> pairs.
\<close>

type_synonym params = "(string \<times> string) list"

datatype literal = LInt int | LBool bool

text \<open>
  An expression is \<open>None\<close> or a dict with a \<open>kind\<close>: \<open>lit\<close>, \<open>var\<close>, \<open>unop\<close>,
  \<open>binop\<close>, \<open>call\<close>. \<open>Unsupported\<close> is a dict of any other kind. The operator of a
  \<open>unop\<close> is read with \<open>expr.get("op")\<close>, so it may be absent; the arguments of a
  call default to the empty list.
\<close>

datatype expr =
    ENone
  | Lit string literal
  | Var string
  | Unop "string option" expr
  | Binop string expr expr
  | Call string "expr list"
  | Unsupported

text \<open>
  A program node is a dict with a \<open>kind\<close> and the fields of that kind. \<open>Other k\<close>
  is a dict that carries the kind \<open>k\<close> and no other field. The initialiser of a
  \<open>vardecl\<close> is \<open>ENone\<close> when the key \<open>expr\<close> is absent or holds \<open>None\<close>; an
  absent \<open>body\<close>, \<open>params\<close> or \<open>args\<close> is the empty list; the \<open>else\<close> branch is
  \<open>None\<close> when absent or \<open>None\<close>. Source lines only occur in messages and are
  left out.
\<close>

datatype node =
    VarDecl string string expr
  | FuncDecl string string params
  | ProcDecl string params
  | FuncBody string params "node list"
  | ProcBody string params "node list"
  | Assign string expr
  | CallStmt string "expr list"
  | Return expr
  | If expr "node list" "node list option"
  | While expr "node list"
  | Print expr
  | Jump "string option"
  | Other string

fun kind :: "node \<Rightarrow> string" where
  "kind (VarDecl tipo nome e) = ''vardecl''"
| "kind (FuncDecl nome tipo ps) = ''funcdecl''"
| "kind (ProcDecl nome ps) = ''procdecl''"
| "kind (FuncBody nome ps body) = ''funcbody''"
| "kind (ProcBody nome ps body) = ''procbody''"
| "kind (Assign nome e) = ''assign''"
| "kind (CallStmt nome args) = ''call''"
| "kind (Return e) = ''return''"
| "kind (If c body els) = ''if''"
| "kind (While c body) = ''while''"
| "kind (Print e) = ''print''"
| "kind (Jump op) = ''jump''"
| "kind (Other k) = k"

text \<open>
  Every \<open>raise\<close> of the source is one constructor, named after the sub-kind the
  specification gives it; the message of the source is quoted beside it.
  \<open>PyKeyError\<close> and \<open>PyIndexError\<close> are the Python exceptions of a missing dict key
  and of an index into an empty list, \<open>PyValueError\<close> the one that \<open>int\<close> raises.
  The text of a lexical error is a piece of the scanned text, a list of code
  points.
\<close>

datatype erro =
    LexicalError "nat list" nat nat
      \<comment> \<open>simbolo invalido 'txt' na linha l, coluna c\<close>
  | DuplicateDeclaration string
      \<comment> \<open>variavel 'nome' ja declarada no mesmo escopo\<close>
  | DuplicateGlobal string
      \<comment> \<open>variavel global 'nome' ja declarada\<close>
  | DuplicateSignature string
      \<comment> \<open>funcao/procedimento 'nome' ja declarado\<close>
  | EmptyExpression
      \<comment> \<open>expressao vazia\<close>
  | UndeclaredVariable string
      \<comment> \<open>variavel 'nome' usada sem declaracao\<close>
  | UnaryNeedsBoolean
      \<comment> \<open>operador unario '!' exige boolean\<close>
  | UnknownUnaryOperator "string option"
      \<comment> \<open>operador unario desconhecido 'op'\<close>
  | ArithmeticNeedsInt string
      \<comment> \<open>operador 'op' exige operandos int\<close>
  | TypeMismatchComparison string string
      \<comment> \<open>comparacao entre tipos diferentes (tleft vs tright)\<close>
  | LogicalNeedsBoolean string
      \<comment> \<open>operador 'op' exige operandos booleanos\<close>
  | UnknownOperator string
      \<comment> \<open>operador desconhecido 'op'\<close>
  | InvalidExpression
      \<comment> \<open>expressao invalida/nao suportada\<close>
  | ArityMismatch string
      \<comment> \<open>chamada a funcao 'nome' com numero errado de argumentos\<close>
  | ProcArityMismatch string
      \<comment> \<open>chamada a procedimento 'nome' com numero errado de argumentos\<close>
  | ArgumentTypeMismatch nat string string string
      \<comment> \<open>argumento idx+1 de 'nome' tem tipo t, esperado e\<close>
  | ProcedureUsedAsValue string
      \<comment> \<open>procedimento 'nome' nao retorna valor (usado em expressao)\<close>
  | UndeclaredFunction string
      \<comment> \<open>funcao/procedimento 'nome' nao declarada\<close>
  | UndeclaredCallee string
      \<comment> \<open>chamada a funcao/procedimento nao declarado 'nome'\<close>
  | TypeMismatchInit string string string
      \<comment> \<open>inicializacao de 'nome' tem tipo t, esperado tipo\<close>
  | AssignUndeclared string
      \<comment> \<open>atribuicao para variavel nao declarada 'nome'\<close>
  | TypeMismatchAssign string string
      \<comment> \<open>atribuicao tipo mismatch: tvar <- texpr\<close>
  | FuncBodyWithoutDeclaration string
      \<comment> \<open>corpo de funcao 'nome' sem declaracao previa\<close>
  | ProcBodyWithoutDeclaration string
      \<comment> \<open>corpo de procedimento 'nome' sem declaracao previa\<close>
  | NonBooleanCondition string
      \<comment> \<open>condicao de if/while nao e boolean\<close>
  | FuncMissingBody string
      \<comment> \<open>funcao 'fname' declarada sem corpo/implementacao\<close>
  | ProcMissingBody string
      \<comment> \<open>procedimento 'pname' declarado sem corpo/implementacao\<close>
  | ReturnInProcedure string
      \<comment> \<open>'return' em procedimento 'nome'\<close>
  | ReturnTypeMismatch string string string
      \<comment> \<open>retorno de 'nome' tem tipo texpr, esperado t\<close>
  | UnknownJump "string option"
      \<comment> \<open>jump desconhecido 'op'\<close>
  | MissingReturn string
      \<comment> \<open>funcao 'nome' sem retorno (return) no corpo\<close>
  | ReturnOutsideBody
      \<comment> \<open>'return' fora de funcao/procedimento\<close>
  | PyKeyError
  | PyIndexError
  | PyValueError

text \<open>
  The analyser's state. The two tables are dicts that phase 3 iterates in
  insertion order, so they are association lists in that order (a key is
  only ever inserted after a test that it is absent). A scope is a dict that
  is only read by key. The stack \<open>escopos\<close> grows at the end: its head is the
  global scope, its last element the innermost one.
\<close>

record estado =
  tabela_funcoes :: "(string \<times> (string \<times> params)) list"
  tabela_proceds :: "(string \<times> params) list"
  escopos :: "(string \<rightharpoonup> string) list"

definition estado_inicial :: estado where
  "estado_inicial = \<lparr>tabela_funcoes = [], tabela_proceds = [], escopos = [Map.empty]\<rparr>"

section \<open>Scopes\<close>

definition abrir_escopo :: "estado \<Rightarrow> estado" where
  "abrir_escopo st = st\<lparr>escopos := escopos st @ [Map.empty]\<rparr>"

text \<open>\<open>pop\<close> on an empty list raises IndexError.\<close>

definition fechar_escopo :: "estado \<Rightarrow> erro + estado" where
  "fechar_escopo st =
     (if length (escopos st) = 1 then Inr st
      else if escopos st = [] then Inl PyIndexError
      else Inr (st\<lparr>escopos := butlast (escopos st)\<rparr>))"

definition declarar_variavel_atual :: "estado \<Rightarrow> string \<Rightarrow> string \<Rightarrow> erro + estado" where
  "declarar_variavel_atual st nome tipo =
     (if escopos st = [] then Inl PyIndexError
      else let escopo_atual = last (escopos st) in
        if nome \<in> dom escopo_atual then Inl (DuplicateDeclaration nome)
        else Inr (st\<lparr>escopos := butlast (escopos st) @ [escopo_atual(nome \<mapsto> tipo)]\<rparr>))"

fun buscar_em :: "(string \<rightharpoonup> string) list \<Rightarrow> string \<Rightarrow> string option" where
  "buscar_em [] nome = None"
| "buscar_em (esc # escs) nome =
     (if nome \<in> dom esc then esc nome else buscar_em escs nome)"

definition buscar_variavel :: "estado \<Rightarrow> string \<Rightarrow> string option" where
  "buscar_variavel st nome = buscar_em (rev (escopos st)) nome"

section \<open>Signature tables\<close>

definition registrar_funcao :: "estado \<Rightarrow> string \<Rightarrow> string \<Rightarrow> params \<Rightarrow> erro + estado" where
  "registrar_funcao st nome tipo_retorno ps =
     (if nome \<in> fst ` set (tabela_funcoes st) \<or> nome \<in> fst ` set (tabela_proceds st)
      then Inl (DuplicateSignature nome)
      else Inr (st\<lparr>tabela_funcoes := tabela_funcoes st @ [(nome, (tipo_retorno, ps))]\<rparr>))"

definition registrar_procedimento :: "estado \<Rightarrow> string \<Rightarrow> params \<Rightarrow> erro + estado" where
  "registrar_procedimento st nome ps =
     (if nome \<in> fst ` set (tabela_funcoes st) \<or> nome \<in> fst ` set (tabela_proceds st)
      then Inl (DuplicateSignature nome)
      else Inr (st\<lparr>tabela_proceds := tabela_proceds st @ [(nome, ps)]\<rparr>))"

section \<open>Expression types\<close>

text \<open>
  \<open>avaliar_expressao_tipo\<close> and \<open>_checar_chamada_em_expressao\<close> call each other;
  \<open>checar_args\<close> is the loop \<open>for idx, arg in enumerate(args)\<close> that both call
  checkers run, reading \<open>params[idx][0]\<close>.
\<close>

fun avaliar_expressao_tipo :: "estado \<Rightarrow> expr \<Rightarrow> erro + string"
  and checar_chamada_em_expressao :: "estado \<Rightarrow> string \<Rightarrow> expr list \<Rightarrow> erro + string"
  and checar_args :: "estado \<Rightarrow> string \<Rightarrow> nat \<Rightarrow> params \<Rightarrow> expr list \<Rightarrow> erro + unit"
where
  "avaliar_expressao_tipo st ENone = Inl EmptyExpression"
| "avaliar_expressao_tipo st (Lit tipo v) = Inr tipo"
| "avaliar_expressao_tipo st (Var nome) =
     (case buscar_variavel st nome of
        None \<Rightarrow> Inl (UndeclaredVariable nome)
      | Some tipo \<Rightarrow> Inr tipo)"
| "avaliar_expressao_tipo st (Unop op e) =
     (case avaliar_expressao_tipo st e of
        Inl err \<Rightarrow> Inl err
      | Inr t \<Rightarrow>
          if op = Some ''!'' then
            (if t \<noteq> ''boolean'' then Inl UnaryNeedsBoolean else Inr ''boolean'')
          else Inl (UnknownUnaryOperator op))"
| "avaliar_expressao_tipo st (Binop op l r) =
     (case avaliar_expressao_tipo st l of
        Inl err \<Rightarrow> Inl err
      | Inr tleft \<Rightarrow>
          (case avaliar_expressao_tipo st r of
             Inl err \<Rightarrow> Inl err
           | Inr tright \<Rightarrow>
               if op \<in> set [''+'', ''-'', ''*'', ''/''] then
                 (if tleft \<noteq> ''int'' \<or> tright \<noteq> ''int''
                  then Inl (ArithmeticNeedsInt op) else Inr ''int'')
               else if op \<in> set [''=='', ''!='', ''>'', ''<'', ''>='', ''<=''] then
                 (if tleft \<noteq> tright
                  then Inl (TypeMismatchComparison tleft tright) else Inr ''boolean'')
               else if op \<in> set [''&&'', ''||''] then
                 (if tleft \<noteq> ''boolean'' \<or> tright \<noteq> ''boolean''
                  then Inl (LogicalNeedsBoolean op) else Inr ''boolean'')
               else Inl (UnknownOperator op)))"
| "avaliar_expressao_tipo st (Call nome args) = checar_chamada_em_expressao st nome args"
| "avaliar_expressao_tipo st Unsupported = Inl InvalidExpression"
| "checar_chamada_em_expressao st nome args =
     (case map_of (tabela_funcoes st) nome of
        Some (tipo_retorno, ps) \<Rightarrow>
          if length ps \<noteq> length args then Inl (ArityMismatch nome)
          else (case checar_args st nome 0 ps args of
                  Inl err \<Rightarrow> Inl err
                | Inr u \<Rightarrow> Inr tipo_retorno)
      | None \<Rightarrow>
          (case map_of (tabela_proceds st) nome of
             Some ps \<Rightarrow> Inl (ProcedureUsedAsValue nome)
           | None \<Rightarrow> Inl (UndeclaredFunction nome)))"
| "checar_args st nome idx ps [] = Inr ()"
| "checar_args st nome idx [] (arg # args) =
     (case avaliar_expressao_tipo st arg of
        Inl err \<Rightarrow> Inl err
      | Inr t \<Rightarrow> Inl PyIndexError)"
| "checar_args st nome idx (p # ps) (arg # args) =
     (case avaliar_expressao_tipo st arg of
        Inl err \<Rightarrow> Inl err
      | Inr t \<Rightarrow>
          if t \<noteq> fst p then Inl (ArgumentTypeMismatch (idx + 1) nome t (fst p))
          else checar_args st nome (idx + 1) ps args)"

definition checar_chamada_como_comando :: "estado \<Rightarrow> string \<Rightarrow> expr list \<Rightarrow> erro + unit" where
  "checar_chamada_como_comando st nome args =
     (case map_of (tabela_funcoes st) nome of
        Some (tipo_retorno, ps) \<Rightarrow>
          if length ps \<noteq> length args then Inl (ArityMismatch nome)
          else checar_args st nome 0 ps args
      | None \<Rightarrow>
          (case map_of (tabela_proceds st) nome of
             Some ps \<Rightarrow>
               if length ps \<noteq> length args then Inl (ProcArityMismatch nome)
               else checar_args st nome 0 ps args
           | None \<Rightarrow> Inl (UndeclaredCallee nome)))"

definition checar_assign :: "estado \<Rightarrow> string \<Rightarrow> expr \<Rightarrow> erro + unit" where
  "checar_assign st nome e =
     (case buscar_variavel st nome of
        None \<Rightarrow> Inl (AssignUndeclared nome)
      | Some tvar \<Rightarrow>
          (case avaliar_expressao_tipo st e of
             Inl err \<Rightarrow> Inl err
           | Inr texpr \<Rightarrow>
               if tvar \<noteq> texpr then Inl (TypeMismatchAssign tvar texpr) else Inr ()))"

text \<open>
  The test of an initialiser, which the source writes out at each of its three
  \<open>vardecl\<close> branches: \<open>if "expr" in elem and elem["expr"] is not None\<close>.
\<close>

definition checar_init :: "estado \<Rightarrow> string \<Rightarrow> string \<Rightarrow> expr \<Rightarrow> erro + unit" where
  "checar_init st nome tipo e =
     (if e = ENone then Inr ()
      else (case avaliar_expressao_tipo st e of
              Inl err \<Rightarrow> Inl err
            | Inr tinit \<Rightarrow>
                if tinit \<noteq> tipo then Inl (TypeMismatchInit nome tinit tipo) else Inr ()))"

section \<open>The single-statement checker\<close>

text \<open>
  \<open>checar_elementos\<close> is the loop \<open>for c in ...: self.checar_elemento(c)\<close>. A dict
  that has one of the kinds below but none of its fields raises KeyError at
  the first field read; a \<open>jump\<close> without \<open>op\<close> reads \<open>None\<close>.
\<close>

fun checar_elemento :: "estado \<Rightarrow> node \<Rightarrow> erro + estado"
  and checar_elementos :: "estado \<Rightarrow> node list \<Rightarrow> erro + estado"
where
  "checar_elemento st (Assign nome e) =
     (case checar_assign st nome e of Inl err \<Rightarrow> Inl err | Inr u \<Rightarrow> Inr st)"
| "checar_elemento st (CallStmt nome args) =
     (case checar_chamada_como_comando st nome args of
        Inl err \<Rightarrow> Inl err | Inr u \<Rightarrow> Inr st)"
| "checar_elemento st (VarDecl tipo nome e) =
     (case declarar_variavel_atual st nome tipo of
        Inl err \<Rightarrow> Inl err
      | Inr st1 \<Rightarrow>
          (case checar_init st1 nome tipo e of Inl err \<Rightarrow> Inl err | Inr u \<Rightarrow> Inr st1))"
| "checar_elemento st (If cond body None) =
     (case avaliar_expressao_tipo st cond of
        Inl err \<Rightarrow> Inl err
      | Inr tcond \<Rightarrow>
          if tcond \<noteq> ''boolean'' then Inl (NonBooleanCondition ''if'')
          else (case checar_elementos (abrir_escopo st) body of
                  Inl err \<Rightarrow> Inl err
                | Inr st1 \<Rightarrow> fechar_escopo st1))"
| "checar_elemento st (If cond body (Some senao)) =
     (case avaliar_expressao_tipo st cond of
        Inl err \<Rightarrow> Inl err
      | Inr tcond \<Rightarrow>
          if tcond \<noteq> ''boolean'' then Inl (NonBooleanCondition ''if'')
          else (case checar_elementos (abrir_escopo st) body of
                  Inl err \<Rightarrow> Inl err
                | Inr st1 \<Rightarrow>
                    (case fechar_escopo st1 of
                       Inl err \<Rightarrow> Inl err
                     | Inr st2 \<Rightarrow>
                         (case checar_elementos (abrir_escopo st2) senao of
                            Inl err \<Rightarrow> Inl err
                          | Inr st3 \<Rightarrow> fechar_escopo st3))))"
| "checar_elemento st (While cond body) =
     (case avaliar_expressao_tipo st cond of
        Inl err \<Rightarrow> Inl err
      | Inr tcond \<Rightarrow>
          if tcond \<noteq> ''boolean'' then Inl (NonBooleanCondition ''while'')
          else (case checar_elementos (abrir_escopo st) body of
                  Inl err \<Rightarrow> Inl err
                | Inr st1 \<Rightarrow> fechar_escopo st1))"
| "checar_elemento st (Print e) =
     (case avaliar_expressao_tipo st e of Inl err \<Rightarrow> Inl err | Inr t \<Rightarrow> Inr st)"
| "checar_elemento st (Jump op) =
     (if op \<noteq> Some ''break'' \<and> op \<noteq> Some ''continue'' then Inl (UnknownJump op)
      else Inr st)"
| "checar_elemento st (Return e) = Inl ReturnOutsideBody"
| "checar_elemento st (Other k) =
     (if k \<in> set [''assign'', ''call'', ''vardecl'', ''if'', ''while'', ''print'']
      then Inl PyKeyError
      else if k = ''jump'' then Inl (UnknownJump None)
      else if k = ''return'' then Inl ReturnOutsideBody
      else Inr st)"
| "checar_elemento st (FuncDecl nome tipo ps) = Inr st"
| "checar_elemento st (ProcDecl nome ps) = Inr st"
| "checar_elemento st (FuncBody nome ps body) = Inr st"
| "checar_elemento st (ProcBody nome ps body) = Inr st"
| "checar_elementos st [] = Inr st"
| "checar_elementos st (c # cs) =
     (case checar_elemento st c of
        Inl err \<Rightarrow> Inl err
      | Inr st1 \<Rightarrow> checar_elementos st1 cs)"

section \<open>The body checker\<close>

fun declarar_params :: "estado \<Rightarrow> params \<Rightarrow> erro + estado" where
  "declarar_params st [] = Inr st"
| "declarar_params st ((tipo, pname) # ps) =
     (case declarar_variavel_atual st pname tipo of
        Inl err \<Rightarrow> Inl err
      | Inr st1 \<Rightarrow> declarar_params st1 ps)"

text \<open>
  One turn of the loop \<open>for cmd in body\<close> of \<open>_checar_corpo_funcional\<close>; the
  boolean says whether the command set \<open>encontrou_return\<close>. The branches of the
  source for \<open>vardecl\<close>, \<open>assign\<close>, \<open>call\<close>, \<open>if\<close>, \<open>while\<close>, \<open>print\<close> and \<open>jump\<close>
  repeat the code of \<open>checar_elemento\<close> line by line, and every other kind but
  \<open>return\<close> is passed to \<open>checar_elemento\<close>; only \<open>return\<close> is checked here. A
  \<open>return\<close> dict without \<open>expr\<close> raises KeyError in a function, at
  \<open>self.tabela_funcoes[nome]\<close> or at \<open>cmd["expr"]\<close>.
\<close>

fun checar_corpo_cmd :: "estado \<Rightarrow> string \<Rightarrow> bool \<Rightarrow> node \<Rightarrow> erro + (estado \<times> bool)" where
  "checar_corpo_cmd st nome is_function (Return e) =
     (if \<not> is_function then Inl (ReturnInProcedure nome)
      else (case map_of (tabela_funcoes st) nome of
              None \<Rightarrow> Inl PyKeyError
            | Some (tipo_ret_esperado, ps) \<Rightarrow>
                (case avaliar_expressao_tipo st e of
                   Inl err \<Rightarrow> Inl err
                 | Inr texpr \<Rightarrow>
                     if texpr \<noteq> tipo_ret_esperado
                     then Inl (ReturnTypeMismatch nome texpr tipo_ret_esperado)
                     else Inr (st, True))))"
| "checar_corpo_cmd st nome is_function (Other k) =
     (if k = ''return'' then
        (if \<not> is_function then Inl (ReturnInProcedure nome) else Inl PyKeyError)
      else (case checar_elemento st (Other k) of
              Inl err \<Rightarrow> Inl err
            | Inr st1 \<Rightarrow> Inr (st1, False)))"
| "checar_corpo_cmd st nome is_function cmd =
     (case checar_elemento st cmd of
        Inl err \<Rightarrow> Inl err
      | Inr st1 \<Rightarrow> Inr (st1, False))"

fun checar_corpo_cmds ::
  "estado \<Rightarrow> string \<Rightarrow> bool \<Rightarrow> bool \<Rightarrow> node list \<Rightarrow> erro + (estado \<times> bool)" where
  "checar_corpo_cmds st nome is_function encontrou_return [] = Inr (st, encontrou_return)"
| "checar_corpo_cmds st nome is_function encontrou_return (cmd # cmds) =
     (case checar_corpo_cmd st nome is_function cmd of
        Inl err \<Rightarrow> Inl err
      | Inr (st1, r) \<Rightarrow>
          checar_corpo_cmds st1 nome is_function (encontrou_return \<or> r) cmds)"

definition checar_corpo_funcional ::
  "estado \<Rightarrow> string \<Rightarrow> params \<Rightarrow> node list \<Rightarrow> bool \<Rightarrow> erro + estado" where
  "checar_corpo_funcional st nome ps body is_function =
     (case declarar_params (abrir_escopo st) ps of
        Inl err \<Rightarrow> Inl err
      | Inr st1 \<Rightarrow>
          (case checar_corpo_cmds st1 nome is_function False body of
             Inl err \<Rightarrow> Inl err
           | Inr (st2, encontrou_return) \<Rightarrow>
               (case fechar_escopo st2 of
                  Inl err \<Rightarrow> Inl err
                | Inr st3 \<Rightarrow>
                    if is_function \<and> \<not> encontrou_return then Inl (MissingReturn nome)
                    else Inr st3)))"

section \<open>The three passes of checar_programa\<close>

text \<open>First pass: global variables go into \<open>escopos[0]\<close>, signatures into the tables.\<close>

fun fase1_elem :: "estado \<Rightarrow> node \<Rightarrow> erro + estado" where
  "fase1_elem st (VarDecl tipo nome e) =
     (if escopos st = [] then Inl PyIndexError
      else if nome \<in> dom (hd (escopos st)) then Inl (DuplicateGlobal nome)
      else Inr (st\<lparr>escopos := (escopos st)[0 := (hd (escopos st))(nome \<mapsto> tipo)]\<rparr>))"
| "fase1_elem st (FuncDecl nome tipo_ret ps) = registrar_funcao st nome tipo_ret ps"
| "fase1_elem st (ProcDecl nome ps) = registrar_procedimento st nome ps"
| "fase1_elem st (Other k) =
     (if k \<in> set [''vardecl'', ''funcdecl'', ''procdecl''] then Inl PyKeyError else Inr st)"
| "fase1_elem st elem = Inr st"

fun fase1 :: "estado \<Rightarrow> node list \<Rightarrow> erro + estado" where
  "fase1 st [] = Inr st"
| "fase1 st (elem # elems) =
     (case fase1_elem st elem of
        Inl err \<Rightarrow> Inl err
      | Inr st1 \<Rightarrow> fase1 st1 elems)"

text \<open>
  Second pass. Its state is the analyser's state and the two sets
  \<open>funcbodies_encontrados\<close> and \<open>procbodies_encontrados\<close>. An \<open>if\<close> or \<open>while\<close> at
  top level runs its branches through \<open>checar_elemento\<close> with no call of
  \<open>abrir_escopo\<close>.
\<close>

type_synonym passo = "estado \<times> string set \<times> string set"

fun fase2_elem :: "passo \<Rightarrow> node \<Rightarrow> erro + passo" where
  "fase2_elem (st, fb, pb) (VarDecl tipo nome e) =
     (case checar_init st nome tipo e of
        Inl err \<Rightarrow> Inl err | Inr u \<Rightarrow> Inr (st, fb, pb))"
| "fase2_elem (st, fb, pb) (Assign nome e) =
     (case checar_assign st nome e of
        Inl err \<Rightarrow> Inl err | Inr u \<Rightarrow> Inr (st, fb, pb))"
| "fase2_elem (st, fb, pb) (CallStmt nome args) =
     (case checar_chamada_como_comando st nome args of
        Inl err \<Rightarrow> Inl err | Inr u \<Rightarrow> Inr (st, fb, pb))"
| "fase2_elem (st, fb, pb) (FuncBody nome ps body) =
     (if nome \<notin> fst ` set (tabela_funcoes st) then Inl (FuncBodyWithoutDeclaration nome)
      else (case checar_corpo_funcional st nome ps body True of
              Inl err \<Rightarrow> Inl err
            | Inr st1 \<Rightarrow> Inr (st1, insert nome fb, pb)))"
| "fase2_elem (st, fb, pb) (ProcBody nome ps body) =
     (if nome \<notin> fst ` set (tabela_proceds st) then Inl (ProcBodyWithoutDeclaration nome)
      else (case checar_corpo_funcional st nome ps body False of
              Inl err \<Rightarrow> Inl err
            | Inr st1 \<Rightarrow> Inr (st1, fb, insert nome pb)))"
| "fase2_elem (st, fb, pb) (If cond body senao) =
     (case avaliar_expressao_tipo st cond of
        Inl err \<Rightarrow> Inl err
      | Inr tcond \<Rightarrow>
          if tcond \<noteq> ''boolean'' then Inl (NonBooleanCondition ''if'')
          else (case checar_elementos st body of
                  Inl err \<Rightarrow> Inl err
                | Inr st1 \<Rightarrow>
                    (case senao of
                       None \<Rightarrow> Inr (st1, fb, pb)
                     | Some cmds \<Rightarrow>
                         (case checar_elementos st1 cmds of
                            Inl err \<Rightarrow> Inl err
                          | Inr st2 \<Rightarrow> Inr (st2, fb, pb)))))"
| "fase2_elem (st, fb, pb) (While cond body) =
     (case avaliar_expressao_tipo st cond of
        Inl err \<Rightarrow> Inl err
      | Inr tcond \<Rightarrow>
          if tcond \<noteq> ''boolean'' then Inl (NonBooleanCondition ''while'')
          else (case checar_elementos st body of
                  Inl err \<Rightarrow> Inl err
                | Inr st1 \<Rightarrow> Inr (st1, fb, pb)))"
| "fase2_elem (st, fb, pb) (Other k) =
     (if k \<in> set [''assign'', ''call'', ''funcbody'', ''procbody'', ''if'', ''while'']
      then Inl PyKeyError
      else if k = ''vardecl'' then Inr (st, fb, pb)
      else (case checar_elemento st (Other k) of
              Inl err \<Rightarrow> Inl err
            | Inr st1 \<Rightarrow> Inr (st1, fb, pb)))"
| "fase2_elem (st, fb, pb) elem =
     (case checar_elemento st elem of
        Inl err \<Rightarrow> Inl err
      | Inr st1 \<Rightarrow> Inr (st1, fb, pb))"

fun fase2 :: "passo \<Rightarrow> node list \<Rightarrow> erro + passo" where
  "fase2 p [] = Inr p"
| "fase2 p (elem # elems) =
     (case fase2_elem p elem of
        Inl err \<Rightarrow> Inl err
      | Inr p1 \<Rightarrow> fase2 p1 elems)"

text \<open>Third pass: the first declared function, then procedure, without a body.\<close>

definition fase3 :: "estado \<Rightarrow> string set \<Rightarrow> string set \<Rightarrow> erro + unit" where
  "fase3 st fb pb =
     (case find (\<lambda>fname. fname \<notin> fb) (map fst (tabela_funcoes st)) of
        Some fname \<Rightarrow> Inl (FuncMissingBody fname)
      | None \<Rightarrow>
          (case find (\<lambda>pname. pname \<notin> pb) (map fst (tabela_proceds st)) of
             Some pname \<Rightarrow> Inl (ProcMissingBody pname)
           | None \<Rightarrow> Inr ()))"

text \<open>
  \<open>checar_programa\<close> first clears both tables and resets the scope stack, so its
  result does not depend on the analyser's earlier state. It returns nothing;
  the model returns the state the analyser is left in.
\<close>

definition checar_programa :: "node list \<Rightarrow> erro + estado" where
  "checar_programa lista_de_elementos =
     (case fase1 estado_inicial lista_de_elementos of
        Inl err \<Rightarrow> Inl err
      | Inr st1 \<Rightarrow>
          (case fase2 (st1, {}, {}) lista_de_elementos of
             Inl err \<Rightarrow> Inl err
           | Inr (st2, fb, pb) \<Rightarrow>
               (case fase3 st2 fb pb of
                  Inl err \<Rightarrow> Inl err
                | Inr u \<Rightarrow> Inr st2)))"

section \<open>The lexical scanner (AnalisadorLexico)\<close>























section \<open>Predicates and programs used in the statements\<close>

text \<open>The two tables share no name.\<close>

definition tabelas_disjuntas :: "estado \<Rightarrow> bool" where
  "tabelas_disjuntas st \<longleftrightarrow>
     fst ` set (tabela_funcoes st) \<inter> fst ` set (tabela_proceds st) = {}"

text \<open>The result is one of the two errors of the third pass.\<close>

definition is_missing_body :: "erro + estado \<Rightarrow> bool" where
  "is_missing_body r =
     (case r of
        Inl (FuncMissingBody n) \<Rightarrow> True
      | Inl (ProcMissingBody n) \<Rightarrow> True
      | _ \<Rightarrow> False)"



text \<open>
  The state with another parameter list recorded for one name, in whichever
  table has the name; and the expressions and statements that hold a call of
  that name where a check reads them.
\<close>

definition redeclarar :: "string \<Rightarrow> params \<Rightarrow> estado \<Rightarrow> estado" where
  "redeclarar nome dps st =
     st\<lparr>tabela_funcoes :=
          map (\<lambda>(n, tr, ps). if n = nome then (n, tr, dps) else (n, tr, ps))
            (tabela_funcoes st),
        tabela_proceds :=
          map (\<lambda>(n, ps). if n = nome then (n, dps) else (n, ps)) (tabela_proceds st)\<rparr>"

fun expr_chama :: "string \<Rightarrow> expr \<Rightarrow> bool" where
  "expr_chama nome (Call n args) = (n = nome \<or> (\<exists>a \<in> set args. expr_chama nome a))"
| "expr_chama nome (Unop op e) = expr_chama nome e"
| "expr_chama nome (Binop op l r) = (expr_chama nome l \<or> expr_chama nome r)"
| "expr_chama nome e = False"

fun node_chama :: "string \<Rightarrow> node \<Rightarrow> bool" where
  "node_chama nome (VarDecl tipo n e) = expr_chama nome e"
| "node_chama nome (Assign n e) = expr_chama nome e"
| "node_chama nome (CallStmt n args) = (n = nome \<or> (\<exists>a \<in> set args. expr_chama nome a))"
| "node_chama nome (Return e) = expr_chama nome e"
| "node_chama nome (Print e) = expr_chama nome e"
| "node_chama nome (If c body None) =
     (expr_chama nome c \<or> (\<exists>cmd \<in> set body. node_chama nome cmd))"
| "node_chama nome (If c body (Some senao)) =
     (expr_chama nome c \<or> (\<exists>cmd \<in> set body. node_chama nome cmd)
      \<or> (\<exists>cmd \<in> set senao. node_chama nome cmd))"
| "node_chama nome (While c body) =
     (expr_chama nome c \<or> (\<exists>cmd \<in> set body. node_chama nome cmd))"
| "node_chama nome n = False"

text \<open>The program \<open>programa\<close> of the source's \<open>__main__\<close> block.\<close>

definition programa :: "node list" where
  "programa =
     [VarDecl ''int'' ''x'' ENone,
      FuncDecl ''soma'' ''int'' [(''int'', ''a''), (''int'', ''b'')],
      FuncBody ''soma'' [(''int'', ''a''), (''int'', ''b'')]
        [Return (Binop ''+'' (Var ''a'') (Var ''b''))],
      Assign ''x'' (Call ''soma'' [Lit ''int'' (LInt 3), Lit ''int'' (LInt 4)]),
      CallStmt ''print'' [Var ''x'']]"

section \<open>Expression typing\<close>

text \<open>
  Claim C4. On a \<open>binop\<close> node, an arithmetic operator (\<open>+ - * /\<close>) yields
  \<open>int\<close> exactly when both operands type to \<open>int\<close>, and fails with the
  operands-must-be-int error when both operands type but one is not \<open>int\<close>; a
  relational operator (\<open>== != > < >= <=\<close>) yields \<open>boolean\<close> exactly when both
  operands type to the same type, and fails with the comparison type mismatch
  when they type to different types.
\<close>

theorem avaliar_binop:
  "(op \<in> set [''+'', ''-'', ''*'', ''/''] \<longrightarrow>
      (avaliar_expressao_tipo st (Binop op l r) = Inr t \<longleftrightarrow>
         t = ''int'' \<and> avaliar_expressao_tipo st l = Inr ''int''
                    \<and> avaliar_expressao_tipo st r = Inr ''int''))
   \<and> (op \<in> set [''=='', ''!='', ''>'', ''<'', ''>='', ''<=''] \<longrightarrow>
      (avaliar_expressao_tipo st (Binop op l r) = Inr t \<longleftrightarrow>
         t = ''boolean'' \<and> (\<exists>ty. avaliar_expressao_tipo st l = Inr ty
                                \<and> avaliar_expressao_tipo st r = Inr ty)))
   \<and> (op \<in> set [''=='', ''!='', ''>'', ''<'', ''>='', ''<='']
        \<and> avaliar_expressao_tipo st l = Inr tleft \<and> avaliar_expressao_tipo st r = Inr tright
        \<and> tleft \<noteq> tright \<longrightarrow>
      avaliar_expressao_tipo st (Binop op l r) = Inl (TypeMismatchComparison tleft tright))
   \<and> (op \<in> set [''+'', ''-'', ''*'', ''/'']
        \<and> avaliar_expressao_tipo st l = Inr tleft \<and> avaliar_expressao_tipo st r = Inr tright
        \<and> (tleft \<noteq> ''int'' \<or> tright \<noteq> ''int'') \<longrightarrow>
      avaliar_expressao_tipo st (Binop op l r) = Inl (ArithmeticNeedsInt op))"
  by (auto split: sum.splits)

text \<open>The four examples of the claim, each from the theorem at that input.\<close>

theorem avaliar_binop_witness:
  "avaliar_expressao_tipo estado_inicial
      (Binop ''+'' (Lit ''int'' (LInt 1)) (Lit ''int'' (LInt 2))) = Inr ''int''
   \<and> avaliar_expressao_tipo estado_inicial
      (Binop ''+'' (Lit ''int'' (LInt 1)) (Lit ''boolean'' (LBool True)))
        = Inl (ArithmeticNeedsInt ''+'')
   \<and> avaliar_expressao_tipo estado_inicial
      (Binop ''=='' (Lit ''int'' (LInt 1)) (Lit ''int'' (LInt 2))) = Inr ''boolean''
   \<and> avaliar_expressao_tipo estado_inicial
      (Binop ''=='' (Lit ''int'' (LInt 1)) (Lit ''boolean'' (LBool True)))
        = Inl (TypeMismatchComparison ''int'' ''boolean'')"
  using
    avaliar_binop [of "''+''" estado_inicial "Lit ''int'' (LInt 1)" "Lit ''int'' (LInt 2)"
      "''int''" "''int''" "''int''"]
    avaliar_binop [of "''+''" estado_inicial "Lit ''int'' (LInt 1)"
      "Lit ''boolean'' (LBool True)" "''int''" "''int''" "''boolean''"]
    avaliar_binop [of "''==''" estado_inicial "Lit ''int'' (LInt 1)" "Lit ''int'' (LInt 2)"
      "''boolean''" "''int''" "''int''"]
    avaliar_binop [of "''==''" estado_inicial "Lit ''int'' (LInt 1)"
      "Lit ''boolean'' (LBool True)" "''boolean''" "''int''" "''boolean''"]
  by simp

section \<open>Scopes: declaration and lookup\<close>

lemma buscar_em_filter:
  "buscar_em escs nome =
     (case filter (\<lambda>esc. nome \<in> dom esc) escs of [] \<Rightarrow> None | esc # rest \<Rightarrow> esc nome)"
  by (induction escs) auto

text \<open>
  Claim C7. On any scope stack with a current scope: declaring a name that is
  bound in the innermost scope fails with the duplicate-declaration error;
  declaring a name that is not bound there succeeds whatever the outer scopes
  bind, adds the binding to the innermost scope only, and the name then looks
  up to the new type (shadowing). Lookup returns the binding of the first
  scope, from the innermost outwards, that contains the name, and nothing when
  no scope does.
\<close>

theorem escopo_declarar_buscar:
  "(escopos st \<noteq> [] \<and> nome \<in> dom (last (escopos st)) \<longrightarrow>
      declarar_variavel_atual st nome tipo = Inl (DuplicateDeclaration nome))
   \<and> (escopos st \<noteq> [] \<and> nome \<notin> dom (last (escopos st)) \<longrightarrow>
      (\<exists>st1. declarar_variavel_atual st nome tipo = Inr st1
         \<and> escopos st1 = butlast (escopos st) @ [(last (escopos st))(nome \<mapsto> tipo)]
         \<and> tabela_funcoes st1 = tabela_funcoes st \<and> tabela_proceds st1 = tabela_proceds st
         \<and> buscar_variavel st1 nome = Some tipo))
   \<and> buscar_variavel st nome =
       (case filter (\<lambda>esc. nome \<in> dom esc) (rev (escopos st)) of
          [] \<Rightarrow> None
        | esc # rest \<Rightarrow> esc nome)"
  by (auto simp: declarar_variavel_atual_def buscar_variavel_def Let_def buscar_em_filter)

theorem escopo_declarar_buscar_witness:
  "declarar_variavel_atual
      \<lparr>tabela_funcoes = [], tabela_proceds = [],
        escopos = [[''x'' \<mapsto> ''int''], [''y'' \<mapsto> ''int'']]\<rparr> ''y'' ''boolean''
     = Inl (DuplicateDeclaration ''y'')
   \<and> (\<exists>st1. declarar_variavel_atual
      \<lparr>tabela_funcoes = [], tabela_proceds = [],
        escopos = [[''x'' \<mapsto> ''int''], [''y'' \<mapsto> ''int'']]\<rparr> ''x'' ''boolean'' = Inr st1
      \<and> buscar_variavel st1 ''x'' = Some ''boolean'')
   \<and> buscar_variavel
      \<lparr>tabela_funcoes = [], tabela_proceds = [],
        escopos = [[''x'' \<mapsto> ''int''], [''y'' \<mapsto> ''int'']]\<rparr> ''x'' = Some ''int''"
  using
    escopo_declarar_buscar [of "\<lparr>tabela_funcoes = [], tabela_proceds = [],
        escopos = [[''x'' \<mapsto> ''int''], [''y'' \<mapsto> ''int'']]\<rparr>" "''y''" "''boolean''"]
    escopo_declarar_buscar [of "\<lparr>tabela_funcoes = [], tabela_proceds = [],
        escopos = [[''x'' \<mapsto> ''int''], [''y'' \<mapsto> ''int'']]\<rparr>" "''x''" "''boolean''"]
  by auto

section \<open>Statements of unknown kind\<close>

text \<open>
  Claim C10. A node whose kind is none of \<open>assign\<close>, \<open>call\<close>, \<open>vardecl\<close>, \<open>if\<close>,
  \<open>while\<close>, \<open>print\<close>, \<open>jump\<close>, \<open>return\<close> passes the single-statement checker
  with no error and leaves the scope stack and both tables as they were; the
  loop of the body checker accepts it in the same way and does not count it
  as a \<open>return\<close>.
\<close>

theorem checar_elemento_outros:
  "kind n \<notin> set [''assign'', ''call'', ''vardecl'', ''if'', ''while'', ''print'',
                  ''jump'', ''return'']
   \<Longrightarrow> checar_elemento st n = Inr st
       \<and> checar_corpo_cmd st nome is_function n = Inr (st, False)"
  by (cases n) auto

theorem checar_elemento_outros_witness:
  "kind (Other ''for'') \<notin> set [''assign'', ''call'', ''vardecl'', ''if'', ''while'',
                                 ''print'', ''jump'', ''return'']
   \<and> checar_elemento estado_inicial (Other ''for'') = Inr estado_inicial
   \<and> checar_corpo_cmd estado_inicial ''f'' True (FuncDecl ''g'' ''int'' [])
       = Inr (estado_inicial, False)"
  using checar_elemento_outros [of "Other ''for''" estado_inicial "''f''" True]
    checar_elemento_outros [of "FuncDecl ''g'' ''int'' []" estado_inicial "''f''" True]
  by simp

section \<open>Whole programs\<close>

lemmas eval_simps =
  checar_programa_def estado_inicial_def registrar_funcao_def registrar_procedimento_def
  checar_corpo_funcional_def abrir_escopo_def fechar_escopo_def declarar_variavel_atual_def
  buscar_variavel_def checar_assign_def checar_chamada_como_comando_def checar_init_def
  fase3_def Let_def

text \<open>
  Claim C1, as the code has it. The program of the claim is rejected: its last
  node is a call statement, and \<open>print\<close> is in neither signature table, so the
  second pass raises the undeclared-callee error. The same program with a
  \<open>print\<close> statement node as its last node is accepted.
\<close>

theorem checar_programa_exemplo:
  "checar_programa programa = Inl (UndeclaredCallee ''print'')
   \<and> (\<exists>st. checar_programa (butlast programa @ [Print (Var ''x'')]) = Inr st)"
  by (simp add: programa_def eval_simps)

text \<open>The claim as stated fails: the check of \<open>programa\<close> does not complete.\<close>

theorem checar_programa_exemplo_falha:
  "checar_programa programa = Inl (UndeclaredCallee ''print'')"
  by (simp add: programa_def eval_simps)

text \<open>
  Claim C3, at the inputs where the code departs from it. An \<open>if\<close> at top
  level is checked with no scope pushed: a variable declared in its branch is
  bound in the global scope when the check ends, and it clashes with a global
  of the same name. The same \<open>if\<close> given to the single-statement checker runs
  its branch in a scope of its own and leaves the state as it was.
\<close>

theorem fase2_if_sem_escopo:
  "checar_programa [If (Lit ''boolean'' (LBool True)) [VarDecl ''int'' ''y'' ENone] None]
     = Inr \<lparr>tabela_funcoes = [], tabela_proceds = [], escopos = [[''y'' \<mapsto> ''int'']]\<rparr>
   \<and> checar_programa
       [VarDecl ''int'' ''x'' ENone,
        While (Lit ''boolean'' (LBool True)) [VarDecl ''int'' ''x'' ENone]]
     = Inl (DuplicateDeclaration ''x'')
   \<and> checar_elemento estado_inicial
       (If (Lit ''boolean'' (LBool True)) [VarDecl ''int'' ''y'' ENone] None)
     = Inr estado_inicial"
  by (simp add: eval_simps)

section \<open>The third pass\<close>

lemma fase2_elem_bodies:
  "fase2_elem (st, fb, pb) elem = Inr (st1, fb1, pb1) \<Longrightarrow>
     fb1 = fb \<union> {n. \<exists>ps b. elem = FuncBody n ps b}
   \<and> pb1 = pb \<union> {n. \<exists>ps b. elem = ProcBody n ps b}"
  by (cases elem) (auto split: sum.splits if_splits option.splits)

lemma fase2_bodies:
  "fase2 (st, fb, pb) elems = Inr (st1, fb1, pb1) \<Longrightarrow>
     fb1 = fb \<union> {n. \<exists>ps b. FuncBody n ps b \<in> set elems}
   \<and> pb1 = pb \<union> {n. \<exists>ps b. ProcBody n ps b \<in> set elems}"
proof (induction elems arbitrary: st fb pb)
  case Nil
  then show ?case by simp
next
  case (Cons elem elems)
  from Cons.prems obtain st' fb' pb' where
    step: "fase2_elem (st, fb, pb) elem = Inr (st', fb', pb')"
    and rest: "fase2 (st', fb', pb') elems = Inr (st1, fb1, pb1)"
    by (auto split: sum.splits)
  from fase2_elem_bodies [OF step] Cons.IH [OF rest] show ?case
    by auto
qed

lemma fase3_cases:
  "fase3 st fb pb = Inr () \<or> (\<exists>n. fase3 st fb pb = Inl (FuncMissingBody n))
   \<or> (\<exists>n. fase3 st fb pb = Inl (ProcMissingBody n))"
  by (auto simp: fase3_def split: option.splits)

lemma find_None_subset: "find (\<lambda>n. n \<notin> S) xs = None \<longleftrightarrow> set xs \<subseteq> S"
  by (induction xs) auto

lemma fase3_ok:
  "fase3 st fb pb = Inr () \<longleftrightarrow>
     fst ` set (tabela_funcoes st) \<subseteq> fb \<and> fst ` set (tabela_proceds st) \<subseteq> pb"
proof -
  have "fase3 st fb pb = Inr () \<longleftrightarrow>
      find (\<lambda>fname. fname \<notin> fb) (map fst (tabela_funcoes st)) = None
      \<and> find (\<lambda>pname. pname \<notin> pb) (map fst (tabela_proceds st)) = None"
    by (simp add: fase3_def split: option.splits)
  then show ?thesis
    by (simp add: find_None_subset)
qed

text \<open>
  Claim C5. When the first two passes succeed, the set of function bodies
  found is the set of names of the \<open>funcbody\<close> nodes of the program, and
  likewise for procedures; \<open>checar_programa\<close> then fails with a missing-body
  error exactly when some name of the function table is not among the
  function bodies found or some name of the procedure table is not among the
  procedure bodies found, and otherwise it succeeds. The one-node program
  \<open>[funcdecl int f()]\<close> fails with the missing-body error for \<open>f\<close>.
\<close>

theorem checar_programa_missing_body:
  "(fase1 estado_inicial elems = Inr st1 \<and> fase2 (st1, {}, {}) elems = Inr (st2, fb, pb) \<longrightarrow>
      fb = {n. \<exists>ps b. FuncBody n ps b \<in> set elems}
    \<and> pb = {n. \<exists>ps b. ProcBody n ps b \<in> set elems}
    \<and> (is_missing_body (checar_programa elems) \<longleftrightarrow>
         (\<exists>n \<in> fst ` set (tabela_funcoes st2). n \<notin> fb)
         \<or> (\<exists>n \<in> fst ` set (tabela_proceds st2). n \<notin> pb))
    \<and> (\<not> is_missing_body (checar_programa elems) \<longrightarrow> checar_programa elems = Inr st2))
   \<and> checar_programa [FuncDecl ''f'' ''int'' []] = Inl (FuncMissingBody ''f'')"
proof -
  have ex: "checar_programa [FuncDecl ''f'' ''int'' []] = Inl (FuncMissingBody ''f'')"
    by (simp add: checar_programa_def estado_inicial_def registrar_funcao_def fase3_def)
  {
    assume f1: "fase1 estado_inicial elems = Inr st1"
      and f2: "fase2 (st1, {}, {}) elems = Inr (st2, fb, pb)"
    have cp: "checar_programa elems =
        (case fase3 st2 fb pb of Inl err \<Rightarrow> Inl err | Inr u \<Rightarrow> Inr st2)"
      by (simp add: checar_programa_def f1 f2)
    have b: "fb = {n. \<exists>ps b. FuncBody n ps b \<in> set elems}
      \<and> pb = {n. \<exists>ps b. ProcBody n ps b \<in> set elems}"
      using fase2_bodies [OF f2] by simp
    have m: "is_missing_body (checar_programa elems) \<longleftrightarrow> fase3 st2 fb pb \<noteq> Inr ()"
      using fase3_cases [of st2 fb pb] by (auto simp: cp is_missing_body_def)
    have "is_missing_body (checar_programa elems) \<longleftrightarrow>
         (\<exists>n \<in> fst ` set (tabela_funcoes st2). n \<notin> fb)
         \<or> (\<exists>n \<in> fst ` set (tabela_proceds st2). n \<notin> pb)"
      unfolding m fase3_ok by blast
    moreover have
      "\<not> is_missing_body (checar_programa elems) \<longrightarrow> checar_programa elems = Inr st2"
      unfolding m by (simp add: cp)
    ultimately have "fb = {n. \<exists>ps b. FuncBody n ps b \<in> set elems}
    \<and> pb = {n. \<exists>ps b. ProcBody n ps b \<in> set elems}
    \<and> (is_missing_body (checar_programa elems) \<longleftrightarrow>
         (\<exists>n \<in> fst ` set (tabela_funcoes st2). n \<notin> fb)
         \<or> (\<exists>n \<in> fst ` set (tabela_proceds st2). n \<notin> pb))
    \<and> (\<not> is_missing_body (checar_programa elems) \<longrightarrow> checar_programa elems = Inr st2)"
      using b by blast
  }
  with ex show ?thesis by blast
qed

text \<open>
  The theorem at two programs: a procedure declared and never implemented,
  and a function declared and implemented.
\<close>

theorem checar_programa_missing_body_witness:
  "fase1 estado_inicial [ProcDecl ''p'' []]
     = Inr \<lparr>tabela_funcoes = [], tabela_proceds = [(''p'', [])], escopos = [Map.empty]\<rparr>
   \<and> fase2 (\<lparr>tabela_funcoes = [], tabela_proceds = [(''p'', [])], escopos = [Map.empty]\<rparr>,
        {}, {}) [ProcDecl ''p'' []]
     = Inr (\<lparr>tabela_funcoes = [], tabela_proceds = [(''p'', [])], escopos = [Map.empty]\<rparr>,
        {}, {})
   \<and> is_missing_body (checar_programa [ProcDecl ''p'' []])
   \<and> checar_programa
       [FuncDecl ''f'' ''int'' [], FuncBody ''f'' [] [Return (Lit ''int'' (LInt 0))]]
     = Inr \<lparr>tabela_funcoes = [(''f'', (''int'', []))], tabela_proceds = [],
            escopos = [Map.empty]\<rparr>"
  using
    checar_programa_missing_body [of "[ProcDecl ''p'' []]"
      "\<lparr>tabela_funcoes = [], tabela_proceds = [(''p'', [])], escopos = [Map.empty]\<rparr>"
      "\<lparr>tabela_funcoes = [], tabela_proceds = [(''p'', [])], escopos = [Map.empty]\<rparr>"
      "{}" "{}"]
    checar_programa_missing_body
      [of "[FuncDecl ''f'' ''int'' [], FuncBody ''f'' [] [Return (Lit ''int'' (LInt 0))]]"
      "\<lparr>tabela_funcoes = [(''f'', (''int'', []))], tabela_proceds = [],
            escopos = [Map.empty]\<rparr>"
      "\<lparr>tabela_funcoes = [(''f'', (''int'', []))], tabela_proceds = [],
            escopos = [Map.empty]\<rparr>"
      "{''f''}" "{}"]
  by (simp add: eval_simps)

section \<open>Calls inside expressions\<close>

lemma checar_args_ok:
  "length ps = length args \<Longrightarrow>
     (checar_args st nome idx ps args = Inr () \<longleftrightarrow>
        (\<forall>i < length args. avaliar_expressao_tipo st (args ! i) = Inr (fst (ps ! i))))"
proof (induction ps args arbitrary: idx rule: list_induct2)
  case Nil
  then show ?case by simp
next
  case (Cons p ps arg args)
  show ?case
    by (auto simp: Cons.IH less_Suc_eq_0_disj split: sum.splits)
qed

lemma registrar_funcao_disjuntas:
  assumes "registrar_funcao st nome tipo ps = Inr st1" and "tabelas_disjuntas st"
  shows "tabelas_disjuntas st1"
proof -
  from assms(1) have "nome \<notin> fst ` set (tabela_proceds st)"
    and "st1 = st\<lparr>tabela_funcoes := tabela_funcoes st @ [(nome, (tipo, ps))]\<rparr>"
    by (simp_all add: registrar_funcao_def split: if_splits)
  with assms(2) show ?thesis
    by (simp add: tabelas_disjuntas_def Int_Un_distrib2)
qed

lemma registrar_procedimento_disjuntas:
  assumes "registrar_procedimento st nome ps = Inr st1" and "tabelas_disjuntas st"
  shows "tabelas_disjuntas st1"
proof -
  from assms(1) have "nome \<notin> fst ` set (tabela_funcoes st)"
    and "st1 = st\<lparr>tabela_proceds := tabela_proceds st @ [(nome, ps)]\<rparr>"
    by (simp_all add: registrar_procedimento_def split: if_splits)
  with assms(2) show ?thesis
    by (simp add: tabelas_disjuntas_def Int_Un_distrib)
qed

lemma fase1_elem_disjuntas:
  assumes "fase1_elem st elem = Inr st1" and "tabelas_disjuntas st"
  shows "tabelas_disjuntas st1"
proof (cases elem)
  case (FuncDecl nome tipo ps)
  with assms show ?thesis
    by (simp add: registrar_funcao_disjuntas)
next
  case (ProcDecl nome ps)
  with assms show ?thesis
    by (simp add: registrar_procedimento_disjuntas)
next
  case (VarDecl tipo nome e)
  with assms(1) have "tabela_funcoes st1 = tabela_funcoes st"
    and "tabela_proceds st1 = tabela_proceds st"
    by (auto split: if_splits)
  with assms(2) show ?thesis
    by (simp add: tabelas_disjuntas_def)
qed (use assms in \<open>simp_all split: if_splits\<close>)

lemma fase1_disjuntas:
  "fase1 st elems = Inr st1 \<Longrightarrow> tabelas_disjuntas st \<Longrightarrow> tabelas_disjuntas st1"
proof (induction elems arbitrary: st)
  case Nil
  then show ?case by simp
next
  case (Cons elem elems)
  from Cons.prems(1) obtain sta where
    a: "fase1_elem st elem = Inr sta" and b: "fase1 sta elems = Inr st1"
    by (auto split: sum.splits)
  from Cons.IH [OF b fase1_elem_disjuntas [OF a Cons.prems(2)]] show ?case .
qed

text \<open>
  Claim C6. For a call node inside an expression, in a state whose tables
  share no name: a callee of the procedure table fails with the
  procedure-used-as-value error. A callee of the function table fails with
  the arity error when the numbers of arguments and parameters differ,
  whatever the arguments are; with equal numbers the call types exactly when
  every argument types to the type of its parameter, and then to the declared
  return type. A callee of neither table fails.
\<close>

theorem avaliar_chamada:
  "(tabelas_disjuntas st \<and> nome \<in> fst ` set (tabela_proceds st) \<longrightarrow>
      avaliar_expressao_tipo st (Call nome args) = Inl (ProcedureUsedAsValue nome))
   \<and> (map_of (tabela_funcoes st) nome = Some (tipo_retorno, ps)
        \<and> length ps \<noteq> length args \<longrightarrow>
      avaliar_expressao_tipo st (Call nome args) = Inl (ArityMismatch nome))
   \<and> (map_of (tabela_funcoes st) nome = Some (tipo_retorno, ps)
        \<and> length ps = length args \<longrightarrow>
      (avaliar_expressao_tipo st (Call nome args) = Inr t \<longleftrightarrow>
         t = tipo_retorno
         \<and> (\<forall>i < length args. avaliar_expressao_tipo st (args ! i) = Inr (fst (ps ! i)))))
   \<and> (nome \<notin> fst ` set (tabela_funcoes st) \<and> nome \<notin> fst ` set (tabela_proceds st) \<longrightarrow>
      avaliar_expressao_tipo st (Call nome args) = Inl (UndeclaredFunction nome))"
proof -
  have a: "tabelas_disjuntas st \<and> nome \<in> fst ` set (tabela_proceds st) \<longrightarrow>
      avaliar_expressao_tipo st (Call nome args) = Inl (ProcedureUsedAsValue nome)"
  proof
    assume h: "tabelas_disjuntas st \<and> nome \<in> fst ` set (tabela_proceds st)"
    then have "nome \<notin> fst ` set (tabela_funcoes st)"
      by (auto simp: tabelas_disjuntas_def)
    then have f: "map_of (tabela_funcoes st) nome = None"
      by (simp add: map_of_eq_None_iff)
    from h obtain pps where p: "map_of (tabela_proceds st) nome = Some pps"
      by (metis map_of_eq_None_iff not_Some_eq)
    show "avaliar_expressao_tipo st (Call nome args) = Inl (ProcedureUsedAsValue nome)"
      by (simp add: f p)
  qed
  have b: "map_of (tabela_funcoes st) nome = Some (tipo_retorno, ps)
        \<and> length ps \<noteq> length args \<longrightarrow>
      avaliar_expressao_tipo st (Call nome args) = Inl (ArityMismatch nome)"
    by simp
  have c: "map_of (tabela_funcoes st) nome = Some (tipo_retorno, ps)
        \<and> length ps = length args \<longrightarrow>
      (avaliar_expressao_tipo st (Call nome args) = Inr t \<longleftrightarrow>
         t = tipo_retorno
         \<and> (\<forall>i < length args. avaliar_expressao_tipo st (args ! i) = Inr (fst (ps ! i))))"
  proof
    assume h: "map_of (tabela_funcoes st) nome = Some (tipo_retorno, ps)
      \<and> length ps = length args"
    then have "checar_args st nome 0 ps args = Inr () \<longleftrightarrow>
        (\<forall>i < length args. avaliar_expressao_tipo st (args ! i) = Inr (fst (ps ! i)))"
      using checar_args_ok by blast
    with h show "avaliar_expressao_tipo st (Call nome args) = Inr t \<longleftrightarrow>
         t = tipo_retorno
         \<and> (\<forall>i < length args. avaliar_expressao_tipo st (args ! i) = Inr (fst (ps ! i)))"
      by (auto split: sum.splits)
  qed
  have d: "nome \<notin> fst ` set (tabela_funcoes st) \<and> nome \<notin> fst ` set (tabela_proceds st) \<longrightarrow>
      avaliar_expressao_tipo st (Call nome args) = Inl (UndeclaredFunction nome)"
    by (auto simp: map_of_eq_None_iff [symmetric])
  from a b c d show ?thesis by blast
qed

text \<open>
  The theorem in the state the first pass builds from a function \<open>soma\<close> of
  two \<open>int\<close> parameters and a procedure \<open>p\<close>: one, two and three arguments, the
  procedure, and an unknown name.
\<close>

theorem avaliar_chamada_witness:
  "tabelas_disjuntas
      \<lparr>tabela_funcoes = [(''soma'', (''int'', [(''int'', ''a''), (''int'', ''b'')]))],
        tabela_proceds = [(''p'', [])], escopos = [Map.empty]\<rparr>
   \<and> avaliar_expressao_tipo
      \<lparr>tabela_funcoes = [(''soma'', (''int'', [(''int'', ''a''), (''int'', ''b'')]))],
        tabela_proceds = [(''p'', [])], escopos = [Map.empty]\<rparr>
      (Call ''p'' []) = Inl (ProcedureUsedAsValue ''p'')
   \<and> avaliar_expressao_tipo
      \<lparr>tabela_funcoes = [(''soma'', (''int'', [(''int'', ''a''), (''int'', ''b'')]))],
        tabela_proceds = [(''p'', [])], escopos = [Map.empty]\<rparr>
      (Call ''soma'' [Lit ''boolean'' (LBool True)]) = Inl (ArityMismatch ''soma'')
   \<and> avaliar_expressao_tipo
      \<lparr>tabela_funcoes = [(''soma'', (''int'', [(''int'', ''a''), (''int'', ''b'')]))],
        tabela_proceds = [(''p'', [])], escopos = [Map.empty]\<rparr>
      (Call ''soma'' [Lit ''int'' (LInt 3), Lit ''int'' (LInt 4)]) = Inr ''int''
   \<and> avaliar_expressao_tipo
      \<lparr>tabela_funcoes = [(''soma'', (''int'', [(''int'', ''a''), (''int'', ''b'')]))],
        tabela_proceds = [(''p'', [])], escopos = [Map.empty]\<rparr>
      (Call ''soma'' [Lit ''int'' (LInt 3), Lit ''int'' (LInt 4), Lit ''int'' (LInt 5)])
        = Inl (ArityMismatch ''soma'')
   \<and> avaliar_expressao_tipo
      \<lparr>tabela_funcoes = [(''soma'', (''int'', [(''int'', ''a''), (''int'', ''b'')]))],
        tabela_proceds = [(''p'', [])], escopos = [Map.empty]\<rparr>
      (Call ''g'' []) = Inl (UndeclaredFunction ''g'')"
  using
    avaliar_chamada [of
      "\<lparr>tabela_funcoes = [(''soma'', (''int'', [(''int'', ''a''), (''int'', ''b'')]))],
        tabela_proceds = [(''p'', [])], escopos = [Map.empty]\<rparr>"
      "''p''" "[]" "''int''" "[]" "''int''"]
    avaliar_chamada [of
      "\<lparr>tabela_funcoes = [(''soma'', (''int'', [(''int'', ''a''), (''int'', ''b'')]))],
        tabela_proceds = [(''p'', [])], escopos = [Map.empty]\<rparr>"
      "''soma''" "[Lit ''boolean'' (LBool True)]" "''int''"
      "[(''int'', ''a''), (''int'', ''b'')]" "''int''"]
    avaliar_chamada [of
      "\<lparr>tabela_funcoes = [(''soma'', (''int'', [(''int'', ''a''), (''int'', ''b'')]))],
        tabela_proceds = [(''p'', [])], escopos = [Map.empty]\<rparr>"
      "''soma''" "[Lit ''int'' (LInt 3), Lit ''int'' (LInt 4)]" "''int''"
      "[(''int'', ''a''), (''int'', ''b'')]" "''int''"]
    avaliar_chamada [of
      "\<lparr>tabela_funcoes = [(''soma'', (''int'', [(''int'', ''a''), (''int'', ''b'')]))],
        tabela_proceds = [(''p'', [])], escopos = [Map.empty]\<rparr>"
      "''soma''" "[Lit ''int'' (LInt 3), Lit ''int'' (LInt 4), Lit ''int'' (LInt 5)]" "''int''"
      "[(''int'', ''a''), (''int'', ''b'')]" "''int''"]
    avaliar_chamada [of
      "\<lparr>tabela_funcoes = [(''soma'', (''int'', [(''int'', ''a''), (''int'', ''b'')]))],
        tabela_proceds = [(''p'', [])], escopos = [Map.empty]\<rparr>"
      "''g''" "[]" "''int''" "[]" "''int''"]
  by (simp add: tabelas_disjuntas_def)

section \<open>The environment along a check\<close>

lemma fechar_escopo_Inr:
  "fechar_escopo st = Inr st1 \<Longrightarrow>
     tabela_funcoes st1 = tabela_funcoes st \<and> tabela_proceds st1 = tabela_proceds st
     \<and> (2 \<le> length (escopos st) \<longrightarrow> escopos st1 = butlast (escopos st))"
  by (auto simp: fechar_escopo_def split: if_splits)

lemma fechar_escopo_nonempty: "escopos st \<noteq> [] \<Longrightarrow> \<exists>st1. fechar_escopo st = Inr st1"
  by (simp add: fechar_escopo_def)

lemma declarar_variavel_atual_Inr:
  "declarar_variavel_atual st nome tipo = Inr st1 \<Longrightarrow>
     tabela_funcoes st1 = tabela_funcoes st \<and> tabela_proceds st1 = tabela_proceds st
     \<and> length (escopos st1) = length (escopos st)"
  by (auto simp: declarar_variavel_atual_def Let_def split: if_splits)

text \<open>
  A statement that checks leaves both tables as they were and, on a stack
  that is not empty, the stack at its height.
\<close>

lemma checar_elemento_ambiente:
  "checar_elemento st n = Inr st1 \<Longrightarrow>
     tabela_funcoes st1 = tabela_funcoes st \<and> tabela_proceds st1 = tabela_proceds st
     \<and> (escopos st \<noteq> [] \<longrightarrow> length (escopos st1) = length (escopos st))"
  "checar_elementos st ns = Inr st1 \<Longrightarrow>
     tabela_funcoes st1 = tabela_funcoes st \<and> tabela_proceds st1 = tabela_proceds st
     \<and> (escopos st \<noteq> [] \<longrightarrow> length (escopos st1) = length (escopos st))"
proof (induction st n and st ns arbitrary: st1 and st1
    rule: checar_elemento_checar_elementos.induct)
  case (3 st tipo nome e)
  then show ?case
    by (auto split: sum.splits dest: declarar_variavel_atual_Inr)
next
  case (4 st cond body)
  from "4.prems" obtain sta where
    a: "checar_elementos (abrir_escopo st) body = Inr sta" and b: "fechar_escopo sta = Inr st1"
    and c: "avaliar_expressao_tipo st cond = Inr ''boolean''"
    by (auto split: sum.splits if_splits)
  from "4.IH" [OF c _ a] fechar_escopo_Inr [OF b] show ?case
    by (auto simp: abrir_escopo_def Suc_le_eq)
next
  case (5 st cond body senao)
  from "5.prems" obtain sta stb stc where
    c: "avaliar_expressao_tipo st cond = Inr ''boolean''"
    and a: "checar_elementos (abrir_escopo st) body = Inr sta"
    and b: "fechar_escopo sta = Inr stb"
    and d: "checar_elementos (abrir_escopo stb) senao = Inr stc"
    and e: "fechar_escopo stc = Inr st1"
    by (auto split: sum.splits if_splits)
  from "5.IH"(1) [OF c _ a] fechar_escopo_Inr [OF b]
  have 1: "tabela_funcoes stb = tabela_funcoes st \<and> tabela_proceds stb = tabela_proceds st
     \<and> (escopos st \<noteq> [] \<longrightarrow> length (escopos stb) = length (escopos st))"
    by (auto simp: abrir_escopo_def Suc_le_eq)
  from "5.IH"(2) [OF c _ a b d] fechar_escopo_Inr [OF e]
  have 2: "tabela_funcoes st1 = tabela_funcoes stb \<and> tabela_proceds st1 = tabela_proceds stb
     \<and> (escopos stb \<noteq> [] \<longrightarrow> length (escopos st1) = length (escopos stb))"
    by (auto simp: abrir_escopo_def Suc_le_eq)
  from 1 2 show ?case by auto
next
  case (6 st cond body)
  from "6.prems" obtain sta where
    a: "checar_elementos (abrir_escopo st) body = Inr sta" and b: "fechar_escopo sta = Inr st1"
    and c: "avaliar_expressao_tipo st cond = Inr ''boolean''"
    by (auto split: sum.splits if_splits)
  from "6.IH" [OF c _ a] fechar_escopo_Inr [OF b] show ?case
    by (auto simp: abrir_escopo_def Suc_le_eq)
next
  case (16 st c cs)
  from "16.prems" obtain sta where
    a: "checar_elemento st c = Inr sta" and b: "checar_elementos sta cs = Inr st1"
    by (auto split: sum.splits)
  from "16.IH"(1) [OF a] "16.IH"(2) [OF a b] show ?case by auto
qed (auto split: sum.splits if_splits)

lemma checar_corpo_cmd_ambiente:
  assumes "checar_corpo_cmd st nome is_function cmd = Inr (st1, r)"
  shows "tabela_funcoes st1 = tabela_funcoes st \<and> tabela_proceds st1 = tabela_proceds st
     \<and> (escopos st \<noteq> [] \<longrightarrow> length (escopos st1) = length (escopos st))"
proof (cases "kind cmd = ''return''")
  case True
  with assms show ?thesis
    by (cases cmd) (auto split: sum.splits if_splits option.splits)
next
  case False
  with assms have "checar_elemento st cmd = Inr st1"
    by (cases cmd) (auto split: sum.splits if_splits)
  then show ?thesis by (rule checar_elemento_ambiente(1))
qed

lemma checar_corpo_cmds_ambiente:
  "checar_corpo_cmds st nome is_function enc body = Inr (st1, r) \<Longrightarrow>
     tabela_funcoes st1 = tabela_funcoes st \<and> tabela_proceds st1 = tabela_proceds st
     \<and> (escopos st \<noteq> [] \<longrightarrow> length (escopos st1) = length (escopos st))"
proof (induction body arbitrary: st enc)
  case Nil
  then show ?case by simp
next
  case (Cons cmd body)
  from Cons.prems obtain sta ra where
    a: "checar_corpo_cmd st nome is_function cmd = Inr (sta, ra)"
    and b: "checar_corpo_cmds sta nome is_function (enc \<or> ra) body = Inr (st1, r)"
    by (auto split: sum.splits)
  from checar_corpo_cmd_ambiente [OF a] Cons.IH [OF b] show ?case by auto
qed

lemma declarar_params_ambiente:
  "declarar_params st ps = Inr st1 \<Longrightarrow>
     tabela_funcoes st1 = tabela_funcoes st \<and> tabela_proceds st1 = tabela_proceds st
     \<and> length (escopos st1) = length (escopos st)"
proof (induction ps arbitrary: st)
  case Nil
  then show ?case by simp
next
  case (Cons p ps)
  obtain tipo pname where p: "p = (tipo, pname)" by (cases p)
  from Cons.prems p obtain sta where
    a: "declarar_variavel_atual st pname tipo = Inr sta"
    and b: "declarar_params sta ps = Inr st1"
    by (auto split: sum.splits)
  from declarar_variavel_atual_Inr [OF a] Cons.IH [OF b] show ?case by auto
qed

section \<open>Function bodies without a direct return\<close>

lemma checar_corpo_cmd_sem_return:
  "kind cmd \<noteq> ''return'' \<Longrightarrow> checar_corpo_cmd st nome is_function cmd = Inr (st1, r)
   \<Longrightarrow> \<not> r"
  by (cases cmd) (auto split: sum.splits if_splits)

lemma checar_corpo_cmds_sem_return:
  "\<forall>cmd \<in> set body. kind cmd \<noteq> ''return'' \<Longrightarrow>
   checar_corpo_cmds st nome is_function enc body = Inr (st1, r) \<Longrightarrow> r = enc"
proof (induction body arbitrary: st enc)
  case Nil
  then show ?case by simp
next
  case (Cons cmd body)
  from Cons.prems(2) obtain sta ra where
    a: "checar_corpo_cmd st nome is_function cmd = Inr (sta, ra)"
    and b: "checar_corpo_cmds sta nome is_function (enc \<or> ra) body = Inr (st1, r)"
    by (auto split: sum.splits)
  from Cons.prems(1) a have "\<not> ra"
    using checar_corpo_cmd_sem_return [of cmd st nome is_function sta ra] by simp
  moreover from Cons.prems(1) b have "r = (enc \<or> ra)"
    using Cons.IH [of sta "enc \<or> ra"] by simp
  ultimately show ?case by simp
qed

text \<open>
  Claim C2, as the code has it. A function body whose direct statement list
  holds no node of kind \<open>return\<close> is never accepted. When its parameters bind
  and every statement of the body checks, the error is the missing-return
  error; otherwise it is the error of the first parameter or statement that
  fails.
\<close>

theorem checar_corpo_sem_return:
  assumes "\<forall>cmd \<in> set body. kind cmd \<noteq> ''return''"
  shows "(\<exists>err. checar_corpo_funcional st nome ps body True = Inl err)
    \<and> (\<forall>st1 st2 r. declarar_params (abrir_escopo st) ps = Inr st1
          \<and> checar_corpo_cmds st1 nome True False body = Inr (st2, r)
        \<longrightarrow> checar_corpo_funcional st nome ps body True = Inl (MissingReturn nome))
    \<and> (\<forall>err. declarar_params (abrir_escopo st) ps = Inl err
        \<longrightarrow> checar_corpo_funcional st nome ps body True = Inl err)
    \<and> (\<forall>st1 err. declarar_params (abrir_escopo st) ps = Inr st1
          \<and> checar_corpo_cmds st1 nome True False body = Inl err
        \<longrightarrow> checar_corpo_funcional st nome ps body True = Inl err)"
proof -
  have ok: "checar_corpo_funcional st nome ps body True = Inl (MissingReturn nome)"
    if a: "declarar_params (abrir_escopo st) ps = Inr st1"
      and b: "checar_corpo_cmds st1 nome True False body = Inr (st2, r)" for st1 st2 r
  proof -
    from assms b have r: "\<not> r"
      using checar_corpo_cmds_sem_return [of body st1 nome True False st2 r] by simp
    from declarar_params_ambiente [OF a] have "escopos st1 \<noteq> []"
      by (auto simp: abrir_escopo_def)
    with checar_corpo_cmds_ambiente [OF b] have "escopos st2 \<noteq> []"
      by auto
    then obtain st3 where c: "fechar_escopo st2 = Inr st3"
      using fechar_escopo_nonempty by blast
    show ?thesis
      by (simp add: checar_corpo_funcional_def a b c r)
  qed
  have e1: "checar_corpo_funcional st nome ps body True = Inl err"
    if "declarar_params (abrir_escopo st) ps = Inl err" for err
    using that by (simp add: checar_corpo_funcional_def)
  have e2: "checar_corpo_funcional st nome ps body True = Inl err"
    if "declarar_params (abrir_escopo st) ps = Inr st1"
      and "checar_corpo_cmds st1 nome True False body = Inl err" for st1 err
    using that by (simp add: checar_corpo_funcional_def)
  have "\<exists>err. checar_corpo_funcional st nome ps body True = Inl err"
  proof (cases "declarar_params (abrir_escopo st) ps")
    case (Inl err)
    then show ?thesis using e1 by blast
  next
    case (Inr st1)
    show ?thesis
    proof (cases "checar_corpo_cmds st1 nome True False body")
      case (Inl err)
      with Inr show ?thesis using e2 by blast
    next
      case (Inr p)
      obtain st2 r where "p = (st2, r)" by (cases p)
      with \<open>declarar_params (abrir_escopo st) ps = Inr st1\<close> Inr show ?thesis
        using ok by blast
    qed
  qed
  with ok e1 e2 show ?thesis by blast
qed

theorem checar_corpo_sem_return_witness:
  "kind (Print (Lit ''int'' (LInt 1))) \<noteq> ''return''
   \<and> kind (Print (Var ''z'')) \<noteq> ''return''
   \<and> checar_corpo_funcional
       \<lparr>tabela_funcoes = [(''f'', (''int'', []))], tabela_proceds = [],
         escopos = [Map.empty]\<rparr>
       ''f'' [] [Print (Lit ''int'' (LInt 1))] True = Inl (MissingReturn ''f'')
   \<and> checar_corpo_funcional
       \<lparr>tabela_funcoes = [(''f'', (''int'', []))], tabela_proceds = [],
         escopos = [Map.empty]\<rparr>
       ''f'' [] [Print (Var ''z'')] True = Inl (UndeclaredVariable ''z'')"
  using
    checar_corpo_sem_return [of "[Print (Lit ''int'' (LInt 1))]"
      "\<lparr>tabela_funcoes = [(''f'', (''int'', []))], tabela_proceds = [],
         escopos = [Map.empty]\<rparr>" "''f''" "[]"]
    checar_corpo_sem_return [of "[Print (Var ''z'')]"
      "\<lparr>tabela_funcoes = [(''f'', (''int'', []))], tabela_proceds = [],
         escopos = [Map.empty]\<rparr>" "''f''" "[]"]
  by (simp add: eval_simps)

text \<open>
  The claim as stated fails where the only returns are in the branches of an
  \<open>if\<close>: the body has no direct return, and the error is the one that
  \<open>checar_elemento\<close> raises at the first nested \<open>return\<close>, not the missing-return
  error.
\<close>

theorem checar_corpo_return_aninhado:
  "kind (If (Lit ''boolean'' (LBool True)) [Return (Lit ''int'' (LInt 1))]
          (Some [Return (Lit ''int'' (LInt 2))])) \<noteq> ''return''
   \<and> checar_corpo_funcional
       \<lparr>tabela_funcoes = [(''f'', (''int'', []))], tabela_proceds = [],
         escopos = [Map.empty]\<rparr>
       ''f'' []
       [If (Lit ''boolean'' (LBool True)) [Return (Lit ''int'' (LInt 1))]
          (Some [Return (Lit ''int'' (LInt 2))])] True
     = Inl ReturnOutsideBody"
  by (simp add: eval_simps)

section \<open>Parameters of a body\<close>






section \<open>The scanner: tokens, a lexical error, or a refused numeral\<close>























end
